theory Spec2Isabelle
  imports Complex_Main "HOL-Library.Sublist"
begin

section \<open>HydroSense: the prediction block of \<open>app.py\<close>\<close>

text \<open>
  The dashboard is one Python script. Everything it computes happens in the block guarded
  by \<open>if predict_clicked:\<close> (lines 101 to 220): the feature vector for the model is
  assembled, the model is called, and the six predicted concentrations are rendered as
  metric cards, a bar chart and an optional note.

  Conventions of the embedding:
  \<^item> Python floats are modelled as \<^typ>\<open>real\<close>, so rounding is not represented.
  \<^item> Exceptions are values of \<open>py_error\<close>; a fallible step returns \<open>py_error + 'a\<close>.
  \<^item> A one-row data frame is the list of its columns in order, each with its single cell.
  \<^item> Streamlit renders as the script runs: the page is the list of elements emitted so
    far, and an exception leaves the elements emitted before it on the page.
  \<^item> Formatted numbers (\<open>:.1f\<close>, \<open>:.2f\<close>) are kept as the number that is formatted.
\<close>

datatype py_error = KeyError | ValueError | ZeroDivisionError

subsection \<open>Module constants (lines 58 to 67)\<close>

definition pollutants :: "string list" where
  "pollutants = [''O2'', ''NO3'', ''NO2'', ''SO4'', ''PO4'', ''CL'']"

definition safe_limits :: "(string \<times> real) list" where
  "safe_limits =
     [(''O2'', 5), (''NO3'', 10), (''NO2'', 1 / 10),
      (''SO4'', 250), (''PO4'', 1 / 10), (''CL'', 250)]"

text \<open>Subscripting a dict, \<open>d[k]\<close>: a missing key raises \<open>KeyError\<close>.\<close>

definition getitem :: "(string \<times> 'a) list \<Rightarrow> string \<Rightarrow> py_error + 'a" where
  "getitem d k = (case map_of d k of None \<Rightarrow> Inl KeyError | Some v \<Rightarrow> Inr v)"

text \<open>Float division \<open>a / b\<close>: a zero divisor raises \<open>ZeroDivisionError\<close>.\<close>

definition py_div :: "real \<Rightarrow> real \<Rightarrow> py_error + real" where
  "py_div a b = (if b = 0 then Inl ZeroDivisionError else Inr (a / b))"

subsection \<open>Feature encoding (lines 102 to 108)\<close>

type_synonym frame = "(string \<times> int) list"

text \<open>
  \<open>pd.get_dummies(pd.DataFrame({'year': [year_input], 'id': [station_id]}), columns=['id'])\<close>:
  the column \<open>year\<close> is kept, and the column \<open>id\<close> is replaced by one indicator column
  per value occurring in it, named \<open>id_\<close> followed by the value. The frame has one row,
  so there is one indicator column, and its cell is set (numerically 1).
\<close>

definition get_dummies :: "int \<Rightarrow> string \<Rightarrow> frame" where
  "get_dummies year_input station_id = [(''year'', year_input), (''id_'' @ station_id, 1)]"

text \<open>
  \<open>for col in model_cols: if col not in input_encoded.columns: input_encoded[col] = 0\<close>.
  Assigning a new column appends it to the frame.
\<close>

fun add_missing :: "string list \<Rightarrow> frame \<Rightarrow> frame" where
  "add_missing [] input_encoded = input_encoded"
| "add_missing (col # cols) input_encoded =
     add_missing cols
       (if col \<notin> set (map fst input_encoded) then input_encoded @ [(col, 0)]
        else input_encoded)"

text \<open>
  \<open>input_encoded[model_cols]\<close>: the columns named by the list, in the order of the list;
  a name that is not a column raises \<open>KeyError\<close>.
\<close>

fun select_cols :: "frame \<Rightarrow> string list \<Rightarrow> py_error + frame" where
  "select_cols df [] = Inr []"
| "select_cols df (col # cols) =
     (case map_of df col of
        None \<Rightarrow> Inl KeyError
      | Some v \<Rightarrow>
          (case select_cols df cols of
             Inl e \<Rightarrow> Inl e
           | Inr rest \<Rightarrow> Inr ((col, v) # rest)))"

definition encode :: "int \<Rightarrow> string \<Rightarrow> string list \<Rightarrow> py_error + frame" where
  "encode year_input station_id model_cols =
     select_cols (add_missing model_cols (get_dummies year_input station_id)) model_cols"

subsection \<open>Metric cards (lines 117 to 147)\<close>

text \<open>The arrow glyph of a card: none, the down triangle or the up triangle.\<close>

datatype arrow = NoArrow | Down | Up

text \<open>\<open>delta_str\<close>: the text \<open>N/A\<close>, or \<open>abs(delta)\<close> formatted as a percentage.\<close>

datatype delta_text = NA | Percent real

record metric_card =
  card_pollutant :: string
  card_value :: real
  card_arrow :: arrow
  card_delta_str :: delta_text
  card_delta_color :: string

text \<open>The body of the loop after \<open>safe_limit = safe_limits[p]\<close> (lines 122 to 134).\<close>

definition metric_body :: "string \<Rightarrow> real \<Rightarrow> real \<Rightarrow> py_error + metric_card" where
  "metric_body p val safe_limit =
     (if safe_limit = 0 then
        Inr \<lparr>card_pollutant = p, card_value = val, card_arrow = NoArrow,
             card_delta_str = NA, card_delta_color = ''black''\<rparr>
      else
        (case py_div (val - safe_limit) safe_limit of
           Inl e \<Rightarrow> Inl e
         | Inr q \<Rightarrow>
             (let delta = q * 100 in
              if delta < 0 then
                Inr \<lparr>card_pollutant = p, card_value = val, card_arrow = Down,
                     card_delta_str = Percent \<bar>delta\<bar>, card_delta_color = ''#ea3943''\<rparr>
              else
                Inr \<lparr>card_pollutant = p, card_value = val, card_arrow = Up,
                     card_delta_str = Percent \<bar>delta\<bar>, card_delta_color = ''#16c784''\<rparr>)))"

definition metric :: "string \<Rightarrow> real \<Rightarrow> py_error + metric_card" where
  "metric p val =
     (case getitem safe_limits p of
        Inl e \<Rightarrow> Inl e
      | Inr safe_limit \<Rightarrow> metric_body p val safe_limit)"

subsection \<open>The page\<close>

type_synonym long_row = "string \<times> string \<times> real"

text \<open>The text mark of a bar: the value (formatted), or the empty string.\<close>

datatype label = Label real | Blank

datatype element =
    Heading string int
  | Card nat metric_card
  | ChartTitle
  | Chart "long_row list" "label list"
  | Note string

text \<open>
  \<open>for i, (p, val) in enumerate(zip(pollutants, predicted_pollutants))\<close>: each card is
  emitted into column \<open>i % 3\<close> as soon as it is built.
\<close>

fun metric_cols_loop ::
  "(nat \<times> string \<times> real) list \<Rightarrow> element list \<Rightarrow> element list \<times> py_error option" where
  "metric_cols_loop [] page = (page, None)"
| "metric_cols_loop ((i, p, val) # rest) page =
     (case metric p val of
        Inl e \<Rightarrow> (page, Some e)
      | Inr c \<Rightarrow> metric_cols_loop rest (page @ [Card (i mod 3) c]))"

definition metric_cards :: "real list \<Rightarrow> element list \<Rightarrow> element list \<times> py_error option" where
  "metric_cards predicted_pollutants page =
     metric_cols_loop (enumerate 0 (zip pollutants predicted_pollutants)) page"

fun cards_of :: "element list \<Rightarrow> metric_card list" where
  "cards_of [] = []"
| "cards_of (Card i c # es) = c # cards_of es"
| "cards_of (e # es) = cards_of es"

fun is_chart_or_note :: "element \<Rightarrow> bool" where
  "is_chart_or_note (Chart rows texts) = True"
| "is_chart_or_note (Note s) = True"
| "is_chart_or_note e = False"

subsection \<open>Bar chart (lines 150 to 203)\<close>

text \<open>\<open>[safe_limits[p] for p in pollutants]\<close>.\<close>

fun safe_limit_values :: "string list \<Rightarrow> py_error + real list" where
  "safe_limit_values [] = Inr []"
| "safe_limit_values (p # ps) =
     (case getitem safe_limits p of
        Inl e \<Rightarrow> Inl e
      | Inr l \<Rightarrow>
          (case safe_limit_values ps of
             Inl e \<Rightarrow> Inl e
           | Inr ls \<Rightarrow> Inr (l # ls)))"

text \<open>
  \<open>pd.DataFrame({'Pollutant': ..., 'Predicted': ..., 'Safe Limit': ...})\<close>: the three
  columns must have one length, otherwise pandas raises \<open>ValueError\<close>. The frame is the
  list of its rows.
\<close>

definition DataFrame :: "string list \<Rightarrow> real list \<Rightarrow> real list \<Rightarrow> py_error + (string \<times> real \<times> real) list" where
  "DataFrame ps preds safes =
     (if length preds = length ps \<and> length safes = length ps
      then Inr (zip ps (zip preds safes))
      else Inl ValueError)"

definition chart_df :: "real list \<Rightarrow> py_error + (string \<times> real \<times> real) list" where
  "chart_df predicted_pollutants =
     (case safe_limit_values pollutants of
        Inl e \<Rightarrow> Inl e
      | Inr safes \<Rightarrow> DataFrame pollutants predicted_pollutants safes)"

text \<open>
  \<open>chart_df.melt(id_vars='Pollutant', var_name='Type', value_name='Value')\<close>: pandas
  stacks the value columns one after the other, each paired with the id column.
\<close>

definition melt :: "(string \<times> real \<times> real) list \<Rightarrow> long_row list" where
  "melt df =
     map (\<lambda>(p, pred, safe). (p, ''Predicted'', pred)) df @
     map (\<lambda>(p, pred, safe). (p, ''Safe Limit'', safe)) df"

definition chart_df_long :: "real list \<Rightarrow> py_error + long_row list" where
  "chart_df_long predicted_pollutants =
     (case chart_df predicted_pollutants of
        Inl e \<Rightarrow> Inl e
      | Inr df \<Rightarrow> Inr (melt df))"

definition label_threshold :: real where
  "label_threshold = 10"

text \<open>
  \<open>alt.condition(alt.datum.Value >= label_threshold, alt.Text('Value:Q', format='.2f'),
  alt.value(''))\<close>, evaluated on one row.
\<close>

definition text_mark :: "long_row \<Rightarrow> label" where
  "text_mark row =
     (case row of (p, ty, v) \<Rightarrow> if v \<ge> label_threshold then Label v else Blank)"

definition final_chart :: "long_row list \<Rightarrow> element" where
  "final_chart rows = Chart rows (map text_mark rows)"

subsection \<open>Note on invisible bars (lines 205 to 220)\<close>

fun invisible_loop :: "(string \<times> real \<times> real) list \<Rightarrow> string list \<Rightarrow> string list" where
  "invisible_loop [] invisible = invisible"
| "invisible_loop ((p, pred, safe) # rest) invisible =
     invisible_loop rest
       (if pred < label_threshold \<and> safe < label_threshold then invisible @ [p]
        else invisible)"

definition invisible_pollutants :: "real list \<Rightarrow> real list \<Rightarrow> string list" where
  "invisible_pollutants predicted_pollutants safes =
     invisible_loop (zip pollutants (zip predicted_pollutants safes)) []"

text \<open>\<open>sep.join(xs)\<close>.\<close>

fun join :: "string \<Rightarrow> string list \<Rightarrow> string" where
  "join sep [] = []"
| "join sep [x] = x"
| "join sep (x # y # ys) = x @ sep @ join sep (y # ys)"

definition note_intro :: string where
  "note_intro =
     ''<b>Note:</b> The following pollutants have predicted and safe limit values that are very small compared to the scale of the chart, '' @
     ''so their bars may not be visible or may appear as a thin line. '' @
     ''This usually happens when concentrations are close to zero or much lower than other pollutants.<br>'' @
     ''Please refer to the numeric predictions above for exact values.<br>'' @
     ''<b>Pollutants affected:</b> ''"

definition note_html :: "string list \<Rightarrow> string" where
  "note_html invisible =
     note_intro @ join '', '' (map (\<lambda>p. ''<b>'' @ p @ ''</b>'') invisible) @ ''.''"

text \<open>\<open>if invisible_pollutants: st.markdown(...)\<close>: an empty list is falsy.\<close>

definition disclaimer :: "string list \<Rightarrow> element list" where
  "disclaimer invisible = (if invisible = [] then [] else [Note (note_html invisible)])"

subsection \<open>The whole block\<close>

text \<open>
  The trained model is a parameter: \<open>predict\<close> stands for
  \<open>model.predict(input_encoded)[0]\<close>, the first row of the model's output.
\<close>

definition on_predict ::
  "(frame \<Rightarrow> real list) \<Rightarrow> int \<Rightarrow> string \<Rightarrow> string list \<Rightarrow> element list \<times> py_error option" where
  "on_predict predict year_input station_id model_cols =
     (case encode year_input station_id model_cols of
        Inl e \<Rightarrow> ([], Some e)
      | Inr input_encoded \<Rightarrow>
          (let predicted_pollutants = predict input_encoded in
           case metric_cards predicted_pollutants [Heading station_id year_input] of
             (page, Some e) \<Rightarrow> (page, Some e)
           | (page, None) \<Rightarrow>
               (case chart_df_long predicted_pollutants of
                  Inl e \<Rightarrow> (page @ [ChartTitle], Some e)
                | Inr rows \<Rightarrow>
                    (case safe_limit_values pollutants of
                       Inl e \<Rightarrow> (page @ [ChartTitle, final_chart rows], Some e)
                     | Inr safes \<Rightarrow>
                         (page @ [ChartTitle, final_chart rows] @
                            disclaimer (invisible_pollutants predicted_pollutants safes),
                          None)))))"

section \<open>Auxiliary facts\<close>

subsection \<open>Encoding\<close>

lemma map_of_add_missing:
  "map_of (add_missing cols df) c =
     (case map_of df c of Some v \<Rightarrow> Some v | None \<Rightarrow> if c \<in> set cols then Some 0 else None)"
proof (induction cols arbitrary: df)
  case Nil
  then show ?case by (simp split: option.splits)
next
  case (Cons col cols)
  show ?case
  proof (cases "col \<in> set (map fst df)")
    case True
    then have "map_of df col \<noteq> None"
      by (simp add: map_of_eq_None_iff)
    with True Cons.IH [of df] show ?thesis
      by (auto split: option.splits)
  next
    case False
    then have none: "map_of df col = None"
      by (simp add: map_of_eq_None_iff)
    from False have "add_missing (col # cols) df = add_missing cols (df @ [(col, 0)])"
      by simp
    with none Cons.IH [of "df @ [(col, 0)]"] show ?thesis
      by (auto simp: map_add_def split: option.splits)
  qed
qed

lemma select_cols_total:
  "\<forall>c \<in> set cols. map_of df c \<noteq> None \<Longrightarrow>
   select_cols df cols = Inr (map (\<lambda>c. (c, the (map_of df c))) cols)"
  by (induction cols) auto

text \<open>The encoder in closed form: it never raises, and each cell depends on its column name only.\<close>

lemma encode_eq:
  "encode year_input station_id model_cols =
     Inr (map (\<lambda>c. (c, if c = ''year'' then year_input
                         else if c = ''id_'' @ station_id then 1 else 0)) model_cols)"
proof -
  let ?df = "add_missing model_cols (get_dummies year_input station_id)"
  have look: "map_of ?df c =
      (if c = ''year'' then Some year_input
       else if c = ''id_'' @ station_id then Some 1
       else if c \<in> set model_cols then Some 0 else None)" for c
    by (simp add: map_of_add_missing get_dummies_def)
  have "\<forall>c \<in> set model_cols. map_of ?df c \<noteq> None"
    by (simp add: look)
  then have "select_cols ?df model_cols = Inr (map (\<lambda>c. (c, the (map_of ?df c))) model_cols)"
    by (rule select_cols_total)
  also have "map (\<lambda>c. (c, the (map_of ?df c))) model_cols =
      map (\<lambda>c. (c, if c = ''year'' then year_input
                     else if c = ''id_'' @ station_id then 1 else 0)) model_cols"
    by (rule map_cong) (simp_all add: look)
  finally show ?thesis by (simp add: encode_def)
qed

subsection \<open>Metric cards\<close>

lemma cards_of_append: "cards_of (xs @ ys) = cards_of xs @ cards_of ys"
  by (induction xs rule: cards_of.induct) simp_all

lemma safe_limits_cases:
  "getitem safe_limits p = Inr L \<Longrightarrow>
     (p, L) \<in> {(''O2'', 5), (''NO3'', 10), (''NO2'', 1 / 10),
                (''SO4'', 250), (''PO4'', 1 / 10), (''CL'', 250)}"
  by (simp add: getitem_def safe_limits_def split: if_splits)

lemma safe_limits_pos: "getitem safe_limits p = Inr L \<Longrightarrow> 0 < L"
  by (drule safe_limits_cases) auto

lemma getitem_pollutant:
  "p \<in> set pollutants \<Longrightarrow> \<exists>L. getitem safe_limits p = Inr L"
proof -
  assume "p \<in> set pollutants"
  also have "set pollutants = fst ` set safe_limits"
    by (simp add: pollutants_def safe_limits_def)
  finally have "map_of safe_limits p \<noteq> None"
    by (simp add: map_of_eq_None_iff)
  then show ?thesis
    by (auto simp: getitem_def)
qed

lemma metric_body_pos:
  assumes "0 < L"
  shows "metric_body p v L =
     Inr \<lparr>card_pollutant = p, card_value = v,
          card_arrow = (if v - L < 0 then Down else Up),
          card_delta_str = Percent (\<bar>v - L\<bar> / L * 100),
          card_delta_color = (if v - L < 0 then ''#ea3943'' else ''#16c784'')\<rparr>"
proof -
  from assms have sgn: "((v - L) / L * 100 < 0) = (v - L < 0)"
    by (simp add: divide_less_0_iff)
  have "\<bar>(v - L) / L * 100\<bar> = \<bar>v - L\<bar> / \<bar>L\<bar> * \<bar>100\<bar>"
    by (simp only: abs_mult abs_divide)
  with assms have mag: "\<bar>(v - L) / L * 100\<bar> = \<bar>v - L\<bar> / L * 100"
    by simp
  from assms have "L \<noteq> 0" by simp
  then show ?thesis
    unfolding metric_body_def py_div_def Let_def
    by (simp only: sgn mag if_False sum.case split: if_splits) simp
qed

lemma metric_pollutant:
  assumes "p \<in> set pollutants"
  shows "\<exists>c. metric p v = Inr c \<and> card_pollutant c = p \<and> card_value c = v"
proof -
  from assms obtain L where L: "getitem safe_limits p = Inr L"
    using getitem_pollutant by blast
  then have "0 < L" by (rule safe_limits_pos)
  then show ?thesis
    by (simp add: metric_def L metric_body_pos)
qed

lemma metric_cols_loop_ok:
  "set (map (fst \<circ> snd) xs) \<subseteq> set pollutants \<Longrightarrow>
   \<exists>page'. metric_cols_loop xs page = (page', None) \<and>
      map card_pollutant (cards_of page') = map card_pollutant (cards_of page) @ map (fst \<circ> snd) xs \<and>
      map card_value (cards_of page') = map card_value (cards_of page) @ map (snd \<circ> snd) xs \<and>
      filter is_chart_or_note page' = filter is_chart_or_note page"
proof (induction xs arbitrary: page)
  case Nil
  then show ?case by simp
next
  case (Cons x xs)
  obtain i p v where x: "x = (i, p, v)" by (cases x) auto
  with Cons.prems have "p \<in> set pollutants" by simp
  then obtain c where c: "metric p v = Inr c" "card_pollutant c = p" "card_value c = v"
    using metric_pollutant by blast
  from Cons.prems have "set (map (fst \<circ> snd) xs) \<subseteq> set pollutants" by simp
  from Cons.IH [OF this, of "page @ [Card (i mod 3) c]"] c x
  show ?case by (auto simp: cards_of_append)
qed

lemma metric_cards_ok:
  "\<exists>page'. metric_cards predicted page = (page', None) \<and>
      map card_pollutant (cards_of page') =
        map card_pollutant (cards_of page) @ take (length predicted) pollutants \<and>
      map card_value (cards_of page') =
        map card_value (cards_of page) @ take (length pollutants) predicted \<and>
      filter is_chart_or_note page' = filter is_chart_or_note page"
proof -
  let ?xs = "enumerate 0 (zip pollutants predicted)"
  have names: "map (fst \<circ> snd) ?xs = take (length predicted) pollutants"
    by (simp add: map_snd_enumerate map_fst_zip_take min_def flip: map_map)
  have vals: "map (snd \<circ> snd) ?xs = take (length pollutants) predicted"
    by (simp add: map_snd_enumerate map_snd_zip_take min_def flip: map_map)
  have "set (map (fst \<circ> snd) ?xs) \<subseteq> set pollutants"
    unfolding names by (rule set_take_subset)
  from metric_cols_loop_ok [OF this, of page] show ?thesis
    unfolding metric_cards_def names vals .
qed

subsection \<open>Chart and note\<close>

lemma length_six:
  "length xs = 6 \<Longrightarrow> \<exists>a b c d e f. xs = [a, b, c, d, e, f]"
  by (auto simp: eval_nat_numeral length_Suc_conv)

lemma safe_limit_values_pollutants:
  "safe_limit_values pollutants = Inr [5, 10, 1 / 10, 250, 1 / 10, 250]"
  by (simp add: pollutants_def getitem_def safe_limits_def)

lemma chart_df_long_six:
  "chart_df_long [a, b, c, d, e, f] =
     Inr [(''O2'', ''Predicted'', a), (''NO3'', ''Predicted'', b), (''NO2'', ''Predicted'', c),
          (''SO4'', ''Predicted'', d), (''PO4'', ''Predicted'', e), (''CL'', ''Predicted'', f),
          (''O2'', ''Safe Limit'', 5), (''NO3'', ''Safe Limit'', 10),
          (''NO2'', ''Safe Limit'', 1 / 10), (''SO4'', ''Safe Limit'', 250),
          (''PO4'', ''Safe Limit'', 1 / 10), (''CL'', ''Safe Limit'', 250)]"
  by (simp add: chart_df_long_def chart_df_def safe_limit_values_pollutants DataFrame_def melt_def)
    (simp add: pollutants_def)

lemma chart_df_long_other:
  "length predicted \<noteq> 6 \<Longrightarrow> chart_df_long predicted = Inl ValueError"
  by (simp add: chart_df_long_def chart_df_def safe_limit_values_pollutants DataFrame_def)

lemma text_mark_iff:
  "(text_mark (p, ty, v) = Label v) = (10 \<le> v)"
  "(text_mark (p, ty, v) = Blank) = (v < 10)"
  "(text_mark (p, ty, v) \<noteq> Blank) = (10 \<le> v)"
  by (auto simp: text_mark_def label_threshold_def)

lemma invisible_loop_filter:
  "invisible_loop xs acc =
     acc @ map fst (filter (\<lambda>(p, pred, safe). pred < 10 \<and> safe < 10) xs)"
  by (induction xs acc rule: invisible_loop.induct) (simp_all add: label_threshold_def)

lemma invisible_pollutants_filter:
  "invisible_pollutants predicted safes =
     map fst (filter (\<lambda>(p, pred, safe). pred < 10 \<and> safe < 10)
       (zip pollutants (zip predicted safes)))"
  by (simp add: invisible_pollutants_def invisible_loop_filter)

lemma subseq_filter_zip:
  "subseq (map fst (filter P (zip xs ys))) xs"
proof (induction xs arbitrary: ys)
  case Nil
  then show ?case by simp
next
  case (Cons x xs)
  then show ?case by (cases ys) auto
qed

lemma distinct_pollutants: "distinct pollutants"
  by (simp add: pollutants_def)

lemma flagged_index:
  assumes "distinct ps" "i < length ps" "i < length zs"
  shows "(ps ! i \<in> set (map fst (filter P (zip ps zs)))) = P (ps ! i, zs ! i)"
proof
  assume "ps ! i \<in> set (map fst (filter P (zip ps zs)))"
  then obtain z where "(ps ! i, z) \<in> set (zip ps zs)" "P (ps ! i, z)"
    by auto
  then obtain j where j: "j < length ps" "j < length zs" "ps ! j = ps ! i" "zs ! j = z"
    by (auto simp: set_zip)
  with assms have "j = i" by (simp add: nth_eq_iff_index_eq)
  with j \<open>P (ps ! i, z)\<close> show "P (ps ! i, zs ! i)" by simp
next
  assume "P (ps ! i, zs ! i)"
  moreover from assms have "(ps ! i, zs ! i) \<in> set (zip ps zs)"
    by (auto simp: set_zip)
  ultimately show "ps ! i \<in> set (map fst (filter P (zip ps zs)))"
    by force
qed

section \<open>The feature encoder\<close>

text \<open>
  C1, as amended. For every year, station and schema that contains the indicator column
  \<open>id_\<close> followed by the station id, the encoder returns (without raising) a vector whose
  column names are exactly the schema, in the schema's order. The indicator column of the
  station holds 1, every other column apart from \<open>year\<close> holds 0, and the column \<open>year\<close>
  holds the input year provided the schema has such a column: a column that the schema
  does not list is dropped by the final selection, \<open>year\<close> included.
\<close>

theorem encode_known_station:
  assumes "''id_'' @ station_id \<in> set model_cols"
  shows "\<exists>out. encode year_input station_id model_cols = Inr out \<and>
           map fst out = model_cols \<and>
           (''year'' \<in> set model_cols \<longrightarrow> map_of out ''year'' = Some year_input) \<and>
           map_of out (''id_'' @ station_id) = Some 1 \<and>
           (\<forall>(c, v) \<in> set out.
              c \<noteq> ''year'' \<longrightarrow> v = (if c = ''id_'' @ station_id then 1 else 0))"
  using assms
  by (auto simp: encode_eq comp_def map_of_map_restrict restrict_map_def)

theorem encode_known_station_witness:
  "''id_'' @ ''7'' \<in> set [''year'', ''id_3'', ''id_7''] \<and>
   (\<exists>out. encode 2030 ''7'' [''year'', ''id_3'', ''id_7''] = Inr out \<and>
      map fst out = [''year'', ''id_3'', ''id_7''] \<and>
      map_of out ''year'' = Some 2030 \<and>
      map_of out ''id_7'' = Some 1 \<and>
      map_of out ''id_3'' = Some 0)"
  using encode_known_station [of "''7''" "[''year'', ''id_3'', ''id_7'']" 2030]
  by (simp add: encode_eq)

text \<open>
  The claim as written fails for a schema without the column \<open>year\<close>: station \<open>1\<close> is
  known to the schema \<open>[id_1]\<close>, and the vector returned has no \<open>year\<close> entry at all.
\<close>

theorem encode_year_dropped_counterexample:
  "''id_'' @ ''1'' \<in> set [''id_1''] \<and>
   encode 2022 ''1'' [''id_1''] = Inr [(''id_1'', 1)] \<and>
   map_of [(''id_1'', 1 :: int)] ''year'' = None"
  by (simp add: encode_eq)

text \<open>
  C2. For every year and every station whose indicator column is not in the schema, the
  encoder raises nothing and returns a vector whose column names are exactly the schema,
  in order, and in which every column other than \<open>year\<close> (so every station indicator)
  holds 0.
\<close>

theorem encode_unknown_station:
  assumes "''id_'' @ station_id \<notin> set model_cols"
  shows "\<exists>out. encode year_input station_id model_cols = Inr out \<and>
           map fst out = model_cols \<and>
           (\<forall>(c, v) \<in> set out. c \<noteq> ''year'' \<longrightarrow> v = 0)"
  using assms
  by (auto simp: encode_eq comp_def)

theorem encode_unknown_station_witness:
  "''id_'' @ ''99'' \<notin> set [''year'', ''id_1'', ''id_2''] \<and>
   (\<exists>out. encode 2022 ''99'' [''year'', ''id_1'', ''id_2''] = Inr out \<and>
      map fst out = [''year'', ''id_1'', ''id_2''] \<and>
      map_of out ''id_1'' = Some 0 \<and> map_of out ''id_2'' = Some 0)"
  using encode_unknown_station [of "''99''" "[''year'', ''id_1'', ''id_2'']" 2022]
  by (simp add: encode_eq)

section \<open>A model output of the wrong width\<close>

text \<open>
  C3, as amended. When the row returned by the model has a length other than 6, the
  request ends in an error: the \<open>ValueError\<close> of the chart's data frame, whose columns
  then differ in length. Neither the chart nor the note is rendered. The metric cards
  are emitted before that point, though, one for each of the first pollutants that has a
  predicted value, so the page does keep a partial (or, for a longer row, a complete) set
  of cards.
\<close>

theorem width_mismatch_fails_after_cards:
  assumes "encode year_input station_id model_cols = Inr input_encoded"
    and "length (predict input_encoded) \<noteq> 6"
  shows "snd (on_predict predict year_input station_id model_cols) = Some ValueError \<and>
         filter is_chart_or_note (fst (on_predict predict year_input station_id model_cols)) = [] \<and>
         map card_pollutant (cards_of (fst (on_predict predict year_input station_id model_cols))) =
           take (length (predict input_encoded)) pollutants"
proof -
  obtain page where page:
    "metric_cards (predict input_encoded) [Heading station_id year_input] = (page, None)"
    "map card_pollutant (cards_of page) = take (length (predict input_encoded)) pollutants"
    "filter is_chart_or_note page = []"
    using metric_cards_ok [of "predict input_encoded" "[Heading station_id year_input]"]
    by auto
  from assms(2) have "chart_df_long (predict input_encoded) = Inl ValueError"
    by (rule chart_df_long_other)
  with assms(1) page(1)
  have "on_predict predict year_input station_id model_cols = (page @ [ChartTitle], Some ValueError)"
    by (simp add: on_predict_def)
  with page show ?thesis
    by (simp add: cards_of_append)
qed

theorem width_mismatch_fails_after_cards_witness:
  "encode 2022 ''1'' [''year'', ''id_1''] = Inr [(''year'', 2022), (''id_1'', 1)] \<and>
   length [1, 2, 3 :: real] \<noteq> 6 \<and>
   snd (on_predict (\<lambda>input_encoded. [1, 2, 3]) 2022 ''1'' [''year'', ''id_1'']) = Some ValueError \<and>
   map card_pollutant
     (cards_of (fst (on_predict (\<lambda>input_encoded. [1, 2, 3]) 2022 ''1'' [''year'', ''id_1'']))) =
     [''O2'', ''NO3'', ''NO2'']"
proof -
  have e: "encode 2022 ''1'' [''year'', ''id_1''] = Inr [(''year'', 2022), (''id_1'', 1)]"
    by (simp add: encode_eq)
  have l: "length ((\<lambda>input_encoded. [1, 2, 3 :: real]) [(''year'', 2022), (''id_1'', 1)]) \<noteq> 6"
    by simp
  from width_mismatch_fails_after_cards [OF e l] e show ?thesis
    by (simp add: pollutants_def)
qed

text \<open>
  The claim as written fails: with a model row of three values the page holds three
  cards when the error is raised.
\<close>

theorem width_mismatch_counterexample:
  "on_predict (\<lambda>input_encoded. [1, 2, 3]) 2022 ''1'' [''year'', ''id_1''] =
     ([Heading ''1'' 2022,
       Card 0 \<lparr>card_pollutant = ''O2'', card_value = 1, card_arrow = Down,
               card_delta_str = Percent 80, card_delta_color = ''#ea3943''\<rparr>,
       Card 1 \<lparr>card_pollutant = ''NO3'', card_value = 2, card_arrow = Down,
               card_delta_str = Percent 80, card_delta_color = ''#ea3943''\<rparr>,
       Card 2 \<lparr>card_pollutant = ''NO2'', card_value = 3, card_arrow = Up,
               card_delta_str = Percent 2900, card_delta_color = ''#16c784''\<rparr>,
       ChartTitle],
      Some ValueError)"
  by (simp add: on_predict_def encode_eq metric_cards_def pollutants_def enumerate_eq_zip
      metric_def metric_body_def getitem_def safe_limits_def py_div_def chart_df_long_other)

section \<open>The metric cards\<close>

text \<open>
  C4, as amended. The loop over \<open>zip(pollutants, predicted_pollutants)\<close> never fails and
  emits one card per pair, so the number of cards is the smaller of 6 and the length of
  the prediction. The cards carry the pollutant codes O2, NO3, NO2, SO4, PO4, CL in that
  order, cut off after as many codes as there are predicted values, and the values of the
  prediction in their given order: nothing is reordered by value. With at least six
  predicted values the cards are exactly the six pollutants in enumeration order.
\<close>

theorem metric_cards_order:
  "snd (metric_cards predicted []) = None \<and>
   map card_pollutant (cards_of (fst (metric_cards predicted []))) =
     take (length predicted) pollutants \<and>
   map card_value (cards_of (fst (metric_cards predicted []))) = take 6 predicted \<and>
   length (cards_of (fst (metric_cards predicted []))) = min 6 (length predicted) \<and>
   (6 \<le> length predicted \<longrightarrow>
      map card_pollutant (cards_of (fst (metric_cards predicted []))) =
        [''O2'', ''NO3'', ''NO2'', ''SO4'', ''PO4'', ''CL''])"
proof -
  obtain page' where p: "metric_cards predicted [] = (page', None)"
    "map card_pollutant (cards_of page') = take (length predicted) pollutants"
    "map card_value (cards_of page') = take (length pollutants) predicted"
    using metric_cards_ok [of predicted "[]"] by auto
  have len: "length pollutants = 6" by (simp add: pollutants_def)
  have "length (cards_of page') = length (map card_pollutant (cards_of page'))" by simp
  also have "\<dots> = min 6 (length predicted)" unfolding p(2) by (simp add: len min.commute)
  finally have l: "length (cards_of page') = min 6 (length predicted)" .
  have "6 \<le> length predicted \<Longrightarrow> take (length predicted) pollutants = pollutants"
    by (simp add: len)
  with p l show ?thesis by (simp add: len) (simp add: pollutants_def)
qed

theorem metric_cards_order_witness:
  "6 \<le> length [300, 1, 200, 2, 100, 3, 7 :: real] \<and>
   map card_pollutant (cards_of (fst (metric_cards [300, 1, 200, 2, 100, 3, 7] []))) =
     [''O2'', ''NO3'', ''NO2'', ''SO4'', ''PO4'', ''CL''] \<and>
   map card_value (cards_of (fst (metric_cards [300, 1, 200, 2, 100, 3, 7] []))) =
     [300, 1, 200, 2, 100, 3]"
  using metric_cards_order [of "[300, 1, 200, 2, 100, 3, 7]"]
  by (simp add: pollutants_def)

text \<open>
  The claim as written fails for a short prediction: two predicted values give two
  cards, not six.
\<close>

theorem metric_cards_short_counterexample:
  "map card_pollutant (cards_of (fst (metric_cards [4, 12] []))) = [''O2'', ''NO3''] \<and>
   length (cards_of (fst (metric_cards [4, 12] []))) \<noteq> 6"
  by (simp add: metric_cards_def pollutants_def enumerate_eq_zip
      metric_def metric_body_def getitem_def safe_limits_def py_div_def)

text \<open>
  C5. For every pollutant \<open>p\<close> of the table of safe limits, with limit \<open>L\<close>, and every
  predicted value \<open>v\<close>: the limit is not zero, the card shows the deviation
  \<open>|v - L| / L * 100\<close>, and it shows the down arrow (in red) exactly when \<open>v - L\<close> is
  negative and the up arrow (in green) otherwise. A predicted O2 of 4.0 (limit 5.0) gives
  the down arrow and 20 percent; a predicted NO2 of 0.15 (limit 0.1) gives the up arrow
  and 50 percent.
\<close>

theorem metric_deviation:
  "(getitem safe_limits p = Inr L \<longrightarrow>
      L \<noteq> 0 \<and>
      metric p v =
        Inr \<lparr>card_pollutant = p, card_value = v,
             card_arrow = (if v - L < 0 then Down else Up),
             card_delta_str = Percent (\<bar>v - L\<bar> / L * 100),
             card_delta_color = (if v - L < 0 then ''#ea3943'' else ''#16c784'')\<rparr>) \<and>
   metric ''O2'' 4 =
     Inr \<lparr>card_pollutant = ''O2'', card_value = 4, card_arrow = Down,
          card_delta_str = Percent 20, card_delta_color = ''#ea3943''\<rparr> \<and>
   metric ''NO2'' (15 / 100) =
     Inr \<lparr>card_pollutant = ''NO2'', card_value = 15 / 100, card_arrow = Up,
          card_delta_str = Percent 50, card_delta_color = ''#16c784''\<rparr>"
proof (intro conjI impI)
  assume L: "getitem safe_limits p = Inr L"
  then have pos: "0 < L" by (rule safe_limits_pos)
  then show "L \<noteq> 0" by simp
  from L pos show "metric p v =
        Inr \<lparr>card_pollutant = p, card_value = v,
             card_arrow = (if v - L < 0 then Down else Up),
             card_delta_str = Percent (\<bar>v - L\<bar> / L * 100),
             card_delta_color = (if v - L < 0 then ''#ea3943'' else ''#16c784'')\<rparr>"
    by (simp add: metric_def metric_body_pos)
next
  show "metric ''O2'' 4 =
     Inr \<lparr>card_pollutant = ''O2'', card_value = 4, card_arrow = Down,
          card_delta_str = Percent 20, card_delta_color = ''#ea3943''\<rparr>"
    by (simp add: metric_def metric_body_def getitem_def safe_limits_def py_div_def)
next
  show "metric ''NO2'' (15 / 100) =
     Inr \<lparr>card_pollutant = ''NO2'', card_value = 15 / 100, card_arrow = Up,
          card_delta_str = Percent 50, card_delta_color = ''#16c784''\<rparr>"
    by (simp add: metric_def metric_body_def getitem_def safe_limits_def py_div_def)
qed

theorem metric_deviation_witness:
  "getitem safe_limits ''SO4'' = Inr 250 \<and>
   metric ''SO4'' 300 =
     Inr \<lparr>card_pollutant = ''SO4'', card_value = 300, card_arrow = Up,
          card_delta_str = Percent 20, card_delta_color = ''#16c784''\<rparr>"
proof -
  have L: "getitem safe_limits ''SO4'' = Inr 250"
    by (simp add: getitem_def safe_limits_def)
  with metric_deviation [of "''SO4''" 250 300] show ?thesis
    by simp
qed

text \<open>
  C6. When the safe limit handed to the body of the loop is 0, the card shows \<open>N/A\<close>
  with no arrow, in the neutral colour, and no division takes place. The division is
  reached only when the limit is not 0, so the body produces a card, and never a division
  fault, for every predicted value and every limit.
\<close>

theorem metric_body_zero_limit:
  "metric_body p v 0 =
     Inr \<lparr>card_pollutant = p, card_value = v, card_arrow = NoArrow,
          card_delta_str = NA, card_delta_color = ''black''\<rparr> \<and>
   (\<exists>c. metric_body p v L = Inr c) \<and>
   metric_body p v L \<noteq> Inl ZeroDivisionError"
  by (simp add: metric_body_def py_div_def Let_def)

theorem metric_body_zero_limit_witness:
  "metric_body ''O2'' 4 0 =
     Inr \<lparr>card_pollutant = ''O2'', card_value = 4, card_arrow = NoArrow,
          card_delta_str = NA, card_delta_color = ''black''\<rparr> \<and>
   metric_body ''O2'' 4 5 \<noteq> Inl ZeroDivisionError"
  using metric_body_zero_limit [of "''O2''" 4 5]
  by simp

section \<open>The bar chart\<close>

text \<open>
  C7, as amended. For every prediction of six values the long-format series of the chart
  has exactly 12 rows, one per pollutant and series type. The rows are in type-major
  order, as \<open>melt\<close> stacks them: the six \<open>Predicted\<close> rows in pollutant order first, then
  the six \<open>Safe Limit\<close> rows in pollutant order.
\<close>

theorem chart_df_long_type_major:
  "length predicted = 6 \<Longrightarrow>
   \<exists>rows. chart_df_long predicted = Inr rows \<and> length rows = 12 \<and>
     rows = map (\<lambda>(p, v). (p, ''Predicted'', v)) (zip pollutants predicted) @
            map (\<lambda>(p, l). (p, ''Safe Limit'', l)) safe_limits"
proof -
  assume "length predicted = 6"
  then obtain a b c d e f where "predicted = [a, b, c, d, e, f]"
    using length_six by blast
  then show ?thesis
    by (simp add: chart_df_long_six) (simp add: pollutants_def safe_limits_def)
qed

theorem chart_df_long_type_major_witness:
  "length [1, 2, 3, 4, 5, 6 :: real] = 6 \<and>
   (\<exists>rows. chart_df_long [1, 2, 3, 4, 5, 6] = Inr rows \<and> length rows = 12 \<and>
      rows ! 1 = (''NO3'', ''Predicted'', 2) \<and> rows ! 6 = (''O2'', ''Safe Limit'', 5))"
  using chart_df_long_type_major [of "[1, 2, 3, 4, 5, 6]"]
  by (simp add: pollutants_def safe_limits_def)

text \<open>
  The claim as written fails on the order: the series of the prediction 1, ..., 6 is the
  first list below, not the pollutant-major second one.
\<close>

theorem chart_df_long_order_counterexample:
  "chart_df_long [1, 2, 3, 4, 5, 6] =
     Inr [(''O2'', ''Predicted'', 1), (''NO3'', ''Predicted'', 2), (''NO2'', ''Predicted'', 3),
          (''SO4'', ''Predicted'', 4), (''PO4'', ''Predicted'', 5), (''CL'', ''Predicted'', 6),
          (''O2'', ''Safe Limit'', 5), (''NO3'', ''Safe Limit'', 10),
          (''NO2'', ''Safe Limit'', 1 / 10), (''SO4'', ''Safe Limit'', 250),
          (''PO4'', ''Safe Limit'', 1 / 10), (''CL'', ''Safe Limit'', 250)] \<and>
   chart_df_long [1, 2, 3, 4, 5, 6] \<noteq>
     Inr [(''O2'', ''Predicted'', 1), (''O2'', ''Safe Limit'', 5),
          (''NO3'', ''Predicted'', 2), (''NO3'', ''Safe Limit'', 10),
          (''NO2'', ''Predicted'', 3), (''NO2'', ''Safe Limit'', 1 / 10),
          (''SO4'', ''Predicted'', 4), (''SO4'', ''Safe Limit'', 250),
          (''PO4'', ''Predicted'', 5), (''PO4'', ''Safe Limit'', 1 / 10),
          (''CL'', ''Predicted'', 6), (''CL'', ''Safe Limit'', 250)]"
  by (simp add: chart_df_long_six)

text \<open>
  C8. The chart built from a series has one text mark per row of the series, and for
  every row the mark is a printed value if and only if the row's value is at least 10;
  for a value below 10 the mark is the empty text.
\<close>

theorem text_label_threshold:
  "final_chart rows = Chart rows (map text_mark rows) \<and>
   (\<forall>row \<in> set rows.
      (text_mark row \<noteq> Blank) = (10 \<le> snd (snd row)) \<and>
      (text_mark row = Label (snd (snd row))) = (10 \<le> snd (snd row)) \<and>
      (text_mark row = Blank) = (snd (snd row) < 10))"
  by (auto simp: final_chart_def text_mark_def label_threshold_def split: if_splits)

theorem text_label_threshold_witness:
  "text_mark (''NO3'', ''Predicted'', 12) = Label 12 \<and>
   text_mark (''NO3'', ''Safe Limit'', 10) = Label 10 \<and>
   text_mark (''O2'', ''Predicted'', 6) = Blank"
  using text_label_threshold
    [of "[(''NO3'', ''Predicted'', 12), (''NO3'', ''Safe Limit'', 10), (''O2'', ''Predicted'', 6)]"]
  by simp

section \<open>The note on invisible bars\<close>

text \<open>
  C9. With the threshold 10, the list of invisible pollutants consists of the pollutants
  whose predicted value and safe limit are both below 10, and of no others, in the order
  of the pollutant enumeration. The note is rendered if and only if this list is not
  empty, and then it names exactly the pollutants of the list. For the prediction
  6, 12, 0.15, 200, 0.05, 300 the list is O2, NO2, PO4: PO4 (0.05 against the limit 0.1)
  is in it, NO3 (12 against the limit 10) is not.
\<close>

theorem invisible_pollutants_flagged:
  "\<exists>safes. safe_limit_values pollutants = Inr safes \<and>
     invisible_pollutants predicted safes =
       map fst (filter (\<lambda>(p, pred, safe). pred < 10 \<and> safe < 10)
         (zip pollutants (zip predicted safes))) \<and>
     subseq (invisible_pollutants predicted safes) pollutants \<and>
     (\<forall>i < min 6 (length predicted).
        (pollutants ! i \<in> set (invisible_pollutants predicted safes)) =
        (predicted ! i < 10 \<and> safes ! i < 10)) \<and>
     (disclaimer (invisible_pollutants predicted safes) = []) =
       (invisible_pollutants predicted safes = []) \<and>
     (invisible_pollutants predicted safes \<noteq> [] \<longrightarrow>
        disclaimer (invisible_pollutants predicted safes) =
          [Note (note_intro @
             join '', '' (map (\<lambda>p. ''<b>'' @ p @ ''</b>'') (invisible_pollutants predicted safes)) @
             ''.'')]) \<and>
     invisible_pollutants [6, 12, 15 / 100, 200, 5 / 100, 300] safes = [''O2'', ''NO2'', ''PO4'']"
proof -
  let ?safes = "[5, 10, 1 / 10, 250, 1 / 10, 250] :: real list"
  let ?P = "\<lambda>(p :: string, pred :: real, safe :: real). pred < 10 \<and> safe < 10"
  have idx: "(pollutants ! i \<in> set (invisible_pollutants predicted ?safes)) =
        (predicted ! i < 10 \<and> ?safes ! i < 10)" if "i < min 6 (length predicted)" for i
  proof -
    from that have "i < length pollutants" "i < length (zip predicted ?safes)"
      by (simp_all add: pollutants_def)
    from flagged_index [OF distinct_pollutants this, of ?P] that
    show ?thesis
      by (simp add: invisible_pollutants_filter)
  qed
  have ex: "invisible_pollutants [6, 12, 15 / 100, 200, 5 / 100, 300] ?safes = [''O2'', ''NO2'', ''PO4'']"
    by (simp add: invisible_pollutants_def pollutants_def label_threshold_def)
  have sub: "subseq (invisible_pollutants predicted ?safes) pollutants"
    unfolding invisible_pollutants_filter by (rule subseq_filter_zip)
  show ?thesis
    apply (rule exI [of _ ?safes])
    apply (intro conjI)
          apply (rule safe_limit_values_pollutants)
         apply (rule invisible_pollutants_filter)
        apply (rule sub)
       apply (intro allI impI, erule idx)
      apply (simp add: disclaimer_def)
     apply (simp add: disclaimer_def note_html_def)
    apply (rule ex)
    done
qed

theorem invisible_pollutants_flagged_witness:
  "\<exists>safes. safe_limit_values pollutants = Inr safes \<and>
     ''PO4'' \<in> set (invisible_pollutants [6, 12, 15 / 100, 200, 5 / 100, 300] safes) \<and>
     ''NO3'' \<notin> set (invisible_pollutants [6, 12, 15 / 100, 200, 5 / 100, 300] safes) \<and>
     disclaimer (invisible_pollutants [6, 12, 15 / 100, 200, 5 / 100, 300] safes) =
       [Note (note_intro @ ''<b>O2</b>, <b>NO2</b>, <b>PO4</b>.'')]"
proof -
  from invisible_pollutants_flagged [of "[6, 12, 15 / 100, 200, 5 / 100, 300]"]
  obtain safes where s: "safe_limit_values pollutants = Inr safes"
    "invisible_pollutants [6, 12, 15 / 100, 200, 5 / 100, 300] safes = [''O2'', ''NO2'', ''PO4'']"
    "invisible_pollutants [6, 12, 15 / 100, 200, 5 / 100, 300] safes \<noteq> [] \<longrightarrow>
        disclaimer (invisible_pollutants [6, 12, 15 / 100, 200, 5 / 100, 300] safes) =
          [Note (note_intro @
             join '', '' (map (\<lambda>p. ''<b>'' @ p @ ''</b>'')
               (invisible_pollutants [6, 12, 15 / 100, 200, 5 / 100, 300] safes)) @ ''.'')]"
    by blast
  from s(3) have "disclaimer (invisible_pollutants [6, 12, 15 / 100, 200, 5 / 100, 300] safes) =
       [Note (note_intro @ ''<b>O2</b>, <b>NO2</b>, <b>PO4</b>.'')]"
    unfolding s(2) by simp
  with s(1,2) show ?thesis by simp
qed

text \<open>
  C10, as amended. The label rule and the flag rule compare with the same threshold: a
  predicted value and a safe limit pass the flag test if and only if neither of the two
  bars gets a printed label. For every prediction of six values the chart is built, its
  text layer has one mark per bar, and a pollutant is in the list of invisible pollutants
  if and only if it is one of the six pollutants and the marks of all its bars in the
  chart, the \<open>Predicted\<close> one and the \<open>Safe Limit\<close> one, are empty. For a prediction of
  any other length the data frame of the chart raises \<open>ValueError\<close>: there is no chart
  and there are no bars, so nothing is said about the flagged pollutants then.
\<close>

theorem invisible_iff_unlabelled:
  "(\<forall>p pred safe.
      (pred < label_threshold \<and> safe < label_threshold) =
      (text_mark (p, ''Predicted'', pred) = Blank \<and> text_mark (p, ''Safe Limit'', safe) = Blank)) \<and>
   (length predicted \<noteq> 6 \<longrightarrow> chart_df_long predicted = Inl ValueError) \<and>
   (length predicted = 6 \<longrightarrow>
      (\<exists>rows texts safes.
         chart_df_long predicted = Inr rows \<and> length rows = 12 \<and>
         final_chart rows = Chart rows texts \<and> length texts = length rows \<and>
         safe_limit_values pollutants = Inr safes \<and>
         (\<forall>p. (p \<in> set (invisible_pollutants predicted safes)) =
            (p \<in> set pollutants \<and>
             (\<forall>(row, mark) \<in> set (zip rows texts). fst row = p \<longrightarrow> mark = Blank)))))"
proof (intro conjI impI)
  show "\<forall>p pred safe.
      (pred < label_threshold \<and> safe < label_threshold) =
      (text_mark (p, ''Predicted'', pred) = Blank \<and> text_mark (p, ''Safe Limit'', safe) = Blank)"
    by (simp add: text_mark_iff label_threshold_def)
next
  assume "length predicted \<noteq> 6"
  then show "chart_df_long predicted = Inl ValueError"
    by (rule chart_df_long_other)
next
  assume "length predicted = 6"
  then obtain a b c d e f where p: "predicted = [a, b, c, d, e, f]"
    using length_six by blast
  let ?rows = "projr (chart_df_long [a, b, c, d, e, f])"
  have "(q \<in> set (invisible_pollutants [a, b, c, d, e, f] [5, 10, 1 / 10, 250, 1 / 10, 250])) =
        (q \<in> set pollutants \<and>
         (\<forall>(row, mark) \<in> set (zip ?rows (map text_mark ?rows)). fst row = q \<longrightarrow> mark = Blank))" for q
    unfolding chart_df_long_six invisible_pollutants_filter
    by (simp add: pollutants_def text_mark_iff) auto
  then show "\<exists>rows texts safes.
         chart_df_long predicted = Inr rows \<and> length rows = 12 \<and>
         final_chart rows = Chart rows texts \<and> length texts = length rows \<and>
         safe_limit_values pollutants = Inr safes \<and>
         (\<forall>p. (p \<in> set (invisible_pollutants predicted safes)) =
            (p \<in> set pollutants \<and>
             (\<forall>(row, mark) \<in> set (zip rows texts). fst row = p \<longrightarrow> mark = Blank)))"
    unfolding p
    by (simp add: chart_df_long_six safe_limit_values_pollutants final_chart_def)
qed

theorem invisible_iff_unlabelled_witness:
  "length ([6, 12, 15 / 100, 200, 5 / 100, 300] :: real list) = 6 \<and>
   (\<exists>rows texts safes. chart_df_long [6, 12, 15 / 100, 200, 5 / 100, 300] = Inr rows \<and>
      final_chart rows = Chart rows texts \<and>
      safe_limit_values pollutants = Inr safes \<and>
      ''PO4'' \<in> set (invisible_pollutants [6, 12, 15 / 100, 200, 5 / 100, 300] safes) \<and>
      texts ! 4 = Blank \<and> texts ! 10 = Blank \<and>
      ''NO3'' \<notin> set (invisible_pollutants [6, 12, 15 / 100, 200, 5 / 100, 300] safes) \<and>
      texts ! 1 = Label 12)"
proof -
  have "length ([6, 12, 15 / 100, 200, 5 / 100, 300] :: real list) = 6" by simp
  with invisible_iff_unlabelled [of "[6, 12, 15 / 100, 200, 5 / 100, 300]"]
  obtain rows texts safes where r:
    "chart_df_long [6, 12, 15 / 100, 200, 5 / 100, 300] = Inr rows"
    "final_chart rows = Chart rows texts"
    "safe_limit_values pollutants = Inr safes"
    "\<And>p. (p \<in> set (invisible_pollutants [6, 12, 15 / 100, 200, 5 / 100, 300] safes)) =
        (p \<in> set pollutants \<and>
         (\<forall>(row, mark) \<in> set (zip rows texts). fst row = p \<longrightarrow> mark = Blank))"
    by blast
  from r(1) have rows: "rows =
         [(''O2'', ''Predicted'', 6), (''NO3'', ''Predicted'', 12),
          (''NO2'', ''Predicted'', 15 / 100), (''SO4'', ''Predicted'', 200),
          (''PO4'', ''Predicted'', 5 / 100), (''CL'', ''Predicted'', 300),
          (''O2'', ''Safe Limit'', 5), (''NO3'', ''Safe Limit'', 10),
          (''NO2'', ''Safe Limit'', 1 / 10), (''SO4'', ''Safe Limit'', 250),
          (''PO4'', ''Safe Limit'', 1 / 10), (''CL'', ''Safe Limit'', 250)]"
    by (simp add: chart_df_long_six)
  from r(2) have texts: "texts =
         [Blank, Label 12, Blank, Label 200, Blank, Label 300,
          Blank, Label 10, Blank, Label 250, Blank, Label 250]"
    unfolding rows by (simp add: final_chart_def text_mark_def label_threshold_def)
  have "''PO4'' \<in> set (invisible_pollutants [6, 12, 15 / 100, 200, 5 / 100, 300] safes)"
    unfolding r(4) rows texts by (simp add: pollutants_def)
  moreover have "''NO3'' \<notin> set (invisible_pollutants [6, 12, 15 / 100, 200, 5 / 100, 300] safes)"
    unfolding r(4) rows texts by (simp add: pollutants_def)
  moreover have "texts ! 4 = Blank \<and> texts ! 10 = Blank \<and> texts ! 1 = Label 12"
    unfolding texts by simp
  ultimately show ?thesis using r(1,2,3) by simp
qed

text \<open>
  The claim as written fails for a prediction that is not of six values. With the single
  value 1 the flag rule, run on its own, puts O2 in the list (1 and the limit 5 are both
  below 10), but there is no chart whose bars could be unlabelled: the data frame raises,
  and the request ends after one card and the chart's title.
\<close>

theorem invisible_without_chart_counterexample:
  "safe_limit_values pollutants = Inr [5, 10, 1 / 10, 250, 1 / 10, 250] \<and>
   invisible_pollutants [1] [5, 10, 1 / 10, 250, 1 / 10, 250] = [''O2''] \<and>
   chart_df_long [1] = Inl ValueError \<and>
   on_predict (\<lambda>input_encoded. [1]) 2022 ''1'' [''year'', ''id_1''] =
     ([Heading ''1'' 2022,
       Card 0 \<lparr>card_pollutant = ''O2'', card_value = 1, card_arrow = Down,
               card_delta_str = Percent 80, card_delta_color = ''#ea3943''\<rparr>,
       ChartTitle],
      Some ValueError)"
proof -
  have "invisible_pollutants [1] [5, 10, 1 / 10, 250, 1 / 10, 250] = [''O2'']"
    by (simp add: invisible_pollutants_def pollutants_def label_threshold_def)
  moreover have "chart_df_long [1] = Inl ValueError"
    by (simp add: chart_df_long_other)
  moreover have "on_predict (\<lambda>input_encoded. [1]) 2022 ''1'' [''year'', ''id_1''] =
     ([Heading ''1'' 2022,
       Card 0 \<lparr>card_pollutant = ''O2'', card_value = 1, card_arrow = Down,
               card_delta_str = Percent 80, card_delta_color = ''#ea3943''\<rparr>,
       ChartTitle],
      Some ValueError)"
    by (simp add: on_predict_def encode_eq metric_cards_def pollutants_def enumerate_eq_zip
        metric_def metric_body_def getitem_def safe_limits_def py_div_def chart_df_long_other)
  ultimately show ?thesis
    by (simp add: safe_limit_values_pollutants)
qed

end
